theory Spec2Isabelle
  imports Main
begin

section \<open>JavaScript values\<close>

text \<open>
  The generator is a JavaScript class working on the result of \<^verbatim>\<open>JSON.parse\<close>.
  A JavaScript string is modelled as a \<^typ>\<open>string\<close>: a list of code units below 256
  (ASCII and Latin-1); \<^const>\<open>length\<close> counts code units as \<^verbatim>\<open>.length\<close> does.
  A number is carried as the text that \<^verbatim>\<open>Number.prototype.toString\<close> gives for it
  (\<open>''8''\<close>, \<open>''-3''\<close>, \<open>''0.5''\<close>); the code modelled here only tests numbers for
  truthiness and converts them to text, and a number is falsy exactly when its text is
  \<open>''0''\<close> (both zeros print so) or \<open>''NaN''\<close>.
\<close>

datatype jsval = Undefined | Null | Bool bool | Num string | Str string

datatype json = Scalar jsval | Arr "json list" | Obj "(string \<times> json) list"

datatype error = InputError string | TypeError

abbreviation bslash :: char where "bslash \<equiv> CHR 0x5C"
abbreviation dquote :: char where "dquote \<equiv> CHR 0x22"
abbreviation newline :: char where "newline \<equiv> CHR 0x0A"
abbreviation creturn :: char where "creturn \<equiv> CHR 0x0D"
abbreviation tabchar :: char where "tabchar \<equiv> CHR 0x09"
abbreviation uscore :: char where "uscore \<equiv> CHR ''_''"

text \<open>Truthiness (\<^verbatim>\<open>ToBoolean\<close>): arrays and objects are always truthy.\<close>

fun truthy :: "jsval \<Rightarrow> bool" where
  "truthy Undefined = False"
| "truthy Null = False"
| "truthy (Bool b) = b"
| "truthy (Num t) = (t \<noteq> ''0'' \<and> t \<noteq> ''NaN'')"
| "truthy (Str s) = (s \<noteq> [])"

fun truthy_json :: "json \<Rightarrow> bool" where
  "truthy_json (Scalar v) = truthy v"
| "truthy_json (Arr xs) = True"
| "truthy_json (Obj kvs) = True"

text \<open>\<^verbatim>\<open>a || b\<close> yields \<open>a\<close> when it is truthy and \<open>b\<close> otherwise.\<close>

definition js_or :: "jsval \<Rightarrow> jsval \<Rightarrow> jsval" where
  "js_or a b = (if truthy a then a else b)"

definition js_or_json :: "json \<Rightarrow> json \<Rightarrow> json" where
  "js_or_json a b = (if truthy_json a then a else b)"

text \<open>\<^verbatim>\<open>ToString\<close>, as applied by a template literal \<^verbatim>\<open>`${v}`\<close>.\<close>

fun to_string :: "jsval \<Rightarrow> string" where
  "to_string Undefined = ''undefined''"
| "to_string Null = ''null''"
| "to_string (Bool b) = (if b then ''true'' else ''false'')"
| "to_string (Num t) = t"
| "to_string (Str s) = s"

text \<open>
  On an array \<^verbatim>\<open>ToString\<close> joins the elements with commas, an undefined or null element
  giving the empty text. On an object made by \<^verbatim>\<open>JSON.parse\<close> it gives
  \<^verbatim>\<open>[object Object]\<close> through \<^verbatim>\<open>Object.prototype.toString\<close>, unless the object has a
  member of its own called \<^verbatim>\<open>toString\<close>: that member is JSON data, not a function, the
  inherited \<^verbatim>\<open>valueOf\<close> (or a member of that name) yields no primitive either, and the
  conversion throws a TypeError.
\<close>

fun to_string_json :: "json \<Rightarrow> error + string"
  and join_json :: "json list \<Rightarrow> error + string" where
  "to_string_json (Scalar v) = Inr (to_string v)"
| "to_string_json (Arr xs) = join_json xs"
| "to_string_json (Obj kvs) =
     (if ''toString'' \<in> set (map fst kvs) then Inl TypeError else Inr ''[object Object]'')"
| "join_json [] = Inr []"
| "join_json (x # xs) =
     (case (if x = Scalar Undefined \<or> x = Scalar Null then Inr [] else to_string_json x) of
        Inl e \<Rightarrow> Inl e
      | Inr s \<Rightarrow>
          (if xs = [] then Inr s
           else (case join_json xs of Inl e \<Rightarrow> Inl e | Inr t \<Rightarrow> Inr (s @ '','' @ t))))"

text \<open>
  Reading a member \<^verbatim>\<open>v.k\<close>. On undefined and null the read throws. An object made by
  \<^verbatim>\<open>JSON.parse\<close> keeps the last of several members of one name. The names read by the
  code modelled here (\<^verbatim>\<open>title\<close>, \<^verbatim>\<open>id\<close>, \<^verbatim>\<open>description\<close>, \<^verbatim>\<open>layout_type\<close>) are not
  inherited from any prototype, so on an array, a string, a number or a boolean the read is undefined.
\<close>

fun get_member :: "json \<Rightarrow> string \<Rightarrow> error + json" where
  "get_member (Scalar Undefined) k = Inl TypeError"
| "get_member (Scalar Null) k = Inl TypeError"
| "get_member (Obj kvs) k =
     (case map_of (rev kvs) k of None \<Rightarrow> Inr (Scalar Undefined) | Some v \<Rightarrow> Inr v)"
| "get_member v k = Inr (Scalar Undefined)"

section \<open>The value formatter: \<^verbatim>\<open>escapeHCLString\<close>\<close>

text \<open>\<^verbatim>\<open>s.replace(/c/g, r)\<close> for a one-character pattern.\<close>

definition replace_char :: "char \<Rightarrow> string \<Rightarrow> string \<Rightarrow> string" where
  "replace_char c r s = concat (map (\<lambda>x. if x = c then r else [x]) s)"

text \<open>The five replacements of the source, in the source's order.\<close>

definition escape_chain :: "string \<Rightarrow> string" where
  "escape_chain str =
     replace_char tabchar [bslash, CHR ''t'']
       (replace_char creturn [bslash, CHR ''r'']
         (replace_char newline [bslash, CHR ''n'']
           (replace_char dquote [bslash, dquote]
             (replace_char bslash [bslash, bslash] str))))"

definition quoted :: "string \<Rightarrow> string" where
  "quoted s = dquote # s @ [dquote]"

fun escapeHCLString :: "json \<Rightarrow> error + string" where
  "escapeHCLString (Scalar (Str str)) = Inr (quoted (escape_chain str))"
| "escapeHCLString v =
     (case to_string_json v of Inl e \<Rightarrow> Inl e | Inr s \<Rightarrow> Inr (quoted s))"

text \<open>The formatter on a scalar, where no conversion can throw.\<close>

fun escapeHCLString_scalar :: "jsval \<Rightarrow> string" where
  "escapeHCLString_scalar (Str str) = quoted (escape_chain str)"
| "escapeHCLString_scalar v = quoted (to_string v)"

text \<open>
  The escaping as the specification words it: each character is replaced on its own,
  the five special ones by their two-character sequence.
\<close>

definition escape_one :: "char \<Rightarrow> string" where
  "escape_one c =
     (if c = bslash then [bslash, bslash]
      else if c = dquote then [bslash, dquote]
      else if c = newline then [bslash, CHR ''n'']
      else if c = creturn then [bslash, CHR ''r'']
      else if c = tabchar then [bslash, CHR ''t'']
      else [c])"

definition escape_spec :: "string \<Rightarrow> string" where
  "escape_spec s = concat (map escape_one s)"

text \<open>A control character: a code unit below 32, or 127.\<close>

definition is_control :: "char \<Rightarrow> bool" where
  "is_control c = ((of_char c :: nat) < 32 \<or> (of_char c :: nat) = 127)"

definition has_raw_control :: "string \<Rightarrow> bool" where
  "has_raw_control s = list_ex is_control s"

section \<open>Resource names: \<^verbatim>\<open>generateResourceName\<close>\<close>

text \<open>
  \<^verbatim>\<open>toLowerCase\<close> on the code units below 256: the ASCII capitals and the Latin-1
  capitals (192 to 222 without the multiplication sign 215) move up by 32.
\<close>

definition lower_char :: "char \<Rightarrow> char" where
  "lower_char c =
     (let n = (of_char c :: nat)
      in if (65 \<le> n \<and> n \<le> 90) \<or> (192 \<le> n \<and> n \<le> 222 \<and> n \<noteq> 215)
         then char_of (n + 32) else c)"

definition toLowerCase :: "string \<Rightarrow> string" where
  "toLowerCase s = map lower_char s"

definition is_lower_az :: "char \<Rightarrow> bool" where
  "is_lower_az c = (97 \<le> (of_char c :: nat) \<and> (of_char c :: nat) \<le> 122)"

definition is_upper_az :: "char \<Rightarrow> bool" where
  "is_upper_az c = (65 \<le> (of_char c :: nat) \<and> (of_char c :: nat) \<le> 90)"

definition is_digit :: "char \<Rightarrow> bool" where
  "is_digit c = (48 \<le> (of_char c :: nat) \<and> (of_char c :: nat) \<le> 57)"

text \<open>\<^verbatim>\<open>.replace(/[^a-z0-9_]/g, '_')\<close> and \<^verbatim>\<open>.replace(/[^a-zA-Z0-9_]/g, '_')\<close>.\<close>

definition replace_outside :: "(char \<Rightarrow> bool) \<Rightarrow> string \<Rightarrow> string" where
  "replace_outside keep s = map (\<lambda>c. if keep c then c else uscore) s"

definition name_char_lower :: "char \<Rightarrow> bool" where
  "name_char_lower c = (is_lower_az c \<or> is_digit c \<or> c = uscore)"

definition name_char_any :: "char \<Rightarrow> bool" where
  "name_char_any c = (is_lower_az c \<or> is_upper_az c \<or> is_digit c \<or> c = uscore)"

text \<open>\<^verbatim>\<open>.replace(/_+/g, '_')\<close>: every run of underscores becomes one underscore.\<close>

fun collapse_underscores :: "string \<Rightarrow> string" where
  "collapse_underscores (a # b # cs) =
     (if a = uscore \<and> b = uscore then collapse_underscores (b # cs)
      else a # collapse_underscores (b # cs))"
| "collapse_underscores cs = cs"

text \<open>
  \<^verbatim>\<open>.replace(/^_|_$/g, '')\<close>: the pattern matches one underscore at the very start and
  one at the very end, so at most one is removed on each side.
\<close>

definition strip_edge_underscores :: "string \<Rightarrow> string" where
  "strip_edge_underscores s =
     (let s1 = (case s of [] \<Rightarrow> [] | c # cs \<Rightarrow> if c = uscore then cs else s)
      in if s1 \<noteq> [] \<and> last s1 = uscore then butlast s1 else s1)"

definition generateResourceName :: "string \<Rightarrow> bool \<Rightarrow> string" where
  "generateResourceName title preserveOriginalNamingConvention =
     (if preserveOriginalNamingConvention then
        (let r = take 50 (strip_edge_underscores (collapse_underscores
                   (replace_outside name_char_any title)))
         in if r = [] then ''Imported_Dashboard'' else r)
      else
        (let r = take 50 (strip_edge_underscores (collapse_underscores
                   (replace_outside name_char_lower (toLowerCase title))))
         in if r = [] then ''imported_dashboard'' else r))"

text \<open>
  The method called on an arbitrary JSON value: anything but a string has no
  \<^verbatim>\<open>toLowerCase\<close> (nor \<^verbatim>\<open>replace\<close>) function, and the call throws a TypeError.
\<close>

fun generateResourceName_json :: "json \<Rightarrow> bool \<Rightarrow> error + string" where
  "generateResourceName_json (Scalar (Str title)) p = Inr (generateResourceName title p)"
| "generateResourceName_json v p = Inl TypeError"

text \<open>
  The name as \<^verbatim>\<open>generateHCL\<close> computes it from the dashboard document:
  \<^verbatim>\<open>this.generateResourceName(dashboardData.title || 'imported_dashboard', false)\<close>.
\<close>

definition dashboard_resource_name :: "json \<Rightarrow> error + string" where
  "dashboard_resource_name dashboardData =
     (case get_member dashboardData ''title'' of
        Inl e \<Rightarrow> Inl e
      | Inr t \<Rightarrow> generateResourceName_json
                  (js_or_json t (Scalar (Str ''imported_dashboard''))) False)"

text \<open>
  The name as the specification words it: lower-case, replace, collapse, trim every
  leading and trailing underscore, truncate.
\<close>

definition trim_underscores :: "string \<Rightarrow> string" where
  "trim_underscores s =
     rev (dropWhile (\<lambda>c. c = uscore) (rev (dropWhile (\<lambda>c. c = uscore) s)))"

definition spec_resource_name :: "string \<Rightarrow> string" where
  "spec_resource_name title =
     take 50 (trim_underscores (collapse_underscores
       (map (\<lambda>c. if name_char_lower c then c else uscore) (map lower_char title))))"

text \<open>No two underscores in a row: what \<^const>\<open>collapse_underscores\<close> establishes.\<close>

definition no_run :: "string \<Rightarrow> bool" where
  "no_run s = successively (\<lambda>a b. \<not> (a = uscore \<and> b = uscore)) s"

section \<open>Input validation: \<^verbatim>\<open>validateDashboardData\<close> and the start of \<^verbatim>\<open>generateHCL\<close>\<close>

fun typeof :: "json \<Rightarrow> string" where
  "typeof (Scalar Undefined) = ''undefined''"
| "typeof (Scalar Null) = ''object''"
| "typeof (Scalar (Bool b)) = ''boolean''"
| "typeof (Scalar (Num t)) = ''number''"
| "typeof (Scalar (Str s)) = ''string''"
| "typeof (Arr xs) = ''object''"
| "typeof (Obj kvs) = ''object''"

text \<open>
  The two \<^verbatim>\<open>throw new Error(...)\<close> of the source are the input-validation errors.
  The warnings that follow them only go to the console and are left out.
\<close>

definition validateDashboardData :: "json \<Rightarrow> error + unit" where
  "validateDashboardData data =
     (if \<not> truthy_json data \<or> typeof data \<noteq> ''object''
      then Inl (InputError ''Invalid JSON: Expected an object'')
      else
        (case get_member data ''title'' of
           Inl e \<Rightarrow> Inl e
         | Inr t \<Rightarrow>
             if truthy_json t then Inr ()
             else
               (case get_member data ''id'' of
                  Inl e \<Rightarrow> Inl e
                | Inr i \<Rightarrow>
                    if truthy_json i then Inr ()
                    else Inl (InputError
                           ''Dashboard must have either a title or id field''))))"

text \<open>
  The first statements of \<^verbatim>\<open>generateHCL\<close>, which compute the values the header of the
  resource block is built from, in the source's order. The rest of the method appends
  text and runs only when these statements have not thrown.
\<close>

record hcl_header =
  header_title :: string
  header_description :: "string option"
  header_layoutType :: json
  header_dashboardId :: json
  header_resourceName :: string

definition generateHCL_header :: "json \<Rightarrow> error + hcl_header" where
  "generateHCL_header dashboardData =
     (case get_member dashboardData ''title'' of
        Inl e \<Rightarrow> Inl e
      | Inr t \<Rightarrow>
     (case escapeHCLString (js_or_json t (Scalar (Str ''Imported Dashboard''))) of
        Inl e \<Rightarrow> Inl e
      | Inr title \<Rightarrow>
     (case get_member dashboardData ''description'' of
        Inl e \<Rightarrow> Inl e
      | Inr d \<Rightarrow>
     (case (if truthy_json d then map_sum id Some (escapeHCLString d) else Inr None) of
        Inl e \<Rightarrow> Inl e
      | Inr description \<Rightarrow>
     (case get_member dashboardData ''layout_type'' of
        Inl e \<Rightarrow> Inl e
      | Inr lt \<Rightarrow>
     (case get_member dashboardData ''id'' of
        Inl e \<Rightarrow> Inl e
      | Inr i \<Rightarrow>
     (case dashboard_resource_name dashboardData of
        Inl e \<Rightarrow> Inl e
      | Inr resourceName \<Rightarrow>
          Inr \<lparr> header_title = title,
                header_description = description,
                header_layoutType = js_or_json lt (Scalar (Str ''ordered'')),
                header_dashboardId =
                  js_or_json i (Scalar (Str ''DASHBOARD_ID_PLACEHOLDER'')),
                header_resourceName = resourceName \<rparr>)))))))"

text \<open>
  \<^verbatim>\<open>processInput\<close> after \<^verbatim>\<open>JSON.parse\<close>: validation first, then generation. Any error
  of either step reaches the \<^verbatim>\<open>catch\<close> block, which clears the output.
\<close>

definition convert_start :: "json \<Rightarrow> error + hcl_header" where
  "convert_start dashboardData =
     (case validateDashboardData dashboardData of
        Inl e \<Rightarrow> Inl e
      | Inr u \<Rightarrow> generateHCL_header dashboardData)"

text \<open>The condition of the claim, in its words: a keyed structure, a title or id member.\<close>

definition has_member :: "json \<Rightarrow> string \<Rightarrow> bool" where
  "has_member data k = (case data of Obj kvs \<Rightarrow> k \<in> set (map fst kvs) | _ \<Rightarrow> False)"

definition is_keyed :: "json \<Rightarrow> bool" where
  "is_keyed data = (case data of Obj kvs \<Rightarrow> True | _ \<Rightarrow> False)"

definition spec_rejected :: "json \<Rightarrow> bool" where
  "spec_rejected data =
     (\<not> is_keyed data \<or> (\<not> has_member data ''title'' \<and> \<not> has_member data ''id''))"

text \<open>What the source tests: a member that is there and truthy.\<close>

definition member_truthy :: "(string \<times> json) list \<Rightarrow> string \<Rightarrow> bool" where
  "member_truthy kvs k = (case map_of (rev kvs) k of None \<Rightarrow> False | Some v \<Rightarrow> truthy_json v)"

section \<open>Requests\<close>

text \<open>
  A request and the objects under it, with the members the emitters read. A member read
  for its text or its truthiness is a \<^typ>\<open>jsval\<close>, \<^const>\<open>Undefined\<close> when it is absent
  (an array or an object in such a place is outside the model).
  A member that holds an object or an array is an option: \<open>None\<close> stands for a member
  that is absent or null (the source tests such members for truthiness before it looks
  inside), \<open>Some\<close> for the object or the array.
\<close>

record conditional_format =
  cf_comparator :: jsval
  cf_hide_value :: jsval
  cf_palette :: jsval
  cf_value :: jsval

record limit_obj =
  limit_count :: jsval
  limit_order :: jsval

record formula_obj =
  formula_alias :: jsval
  formula_formula :: jsval
  formula_formula_expression :: jsval
  formula_limit :: "limit_obj option"

record search_obj =
  search_query :: jsval

record compute_obj =
  compute_aggregation :: jsval
  compute_metric :: jsval

record query_obj =
  query_data_source :: jsval
  query_metric :: jsval
  query_query :: jsval
  query_aggregator :: jsval
  query_name :: jsval
  query_search :: "search_obj option"
  query_compute :: "compute_obj option"

record style_obj =
  style_palette :: jsval
  style_line_type :: jsval
  style_line_width :: jsval

record request =
  request_q :: jsval
  request_aggregator :: jsval
  request_display_type :: jsval
  request_on_right_yaxis :: jsval
  request_conditional_formats :: "conditional_format list option"
  request_formulas :: "formula_obj list option"
  request_queries :: "query_obj list option"
  request_style :: "style_obj option"

text \<open>A line of output, and a value between double quotes as \<^verbatim>\<open>"${v}"\<close> writes it.\<close>

definition ln :: "string \<Rightarrow> string" where
  "ln s = s @ [newline]"

definition in_quotes :: "jsval \<Rightarrow> string" where
  "in_quotes v = quoted (to_string v)"

definition hasValidRequestContent :: "request \<Rightarrow> bool" where
  "hasValidRequestContent request =
     (truthy (request_q request)
      \<or> (case request_queries request of None \<Rightarrow> False | Some qs \<Rightarrow> 0 < length qs)
      \<or> (case request_formulas request of None \<Rightarrow> False | Some fs \<Rightarrow> 0 < length fs))"

text \<open>\<^verbatim>\<open>query.search && query.search.query\<close> and \<^verbatim>\<open>query.compute && query.compute.aggregation\<close>.\<close>

definition search_and_query :: "query_obj \<Rightarrow> jsval" where
  "search_and_query query =
     (case query_search query of None \<Rightarrow> Undefined | Some s \<Rightarrow> search_query s)"

definition compute_and_aggregation :: "query_obj \<Rightarrow> jsval" where
  "compute_and_aggregation query =
     (case query_compute query of None \<Rightarrow> Undefined | Some c \<Rightarrow> compute_aggregation c)"

text \<open>The blocks shared by both emitters.\<close>

definition conditional_format_block :: "conditional_format \<Rightarrow> string" where
  "conditional_format_block format =
     ln ''        conditional_formats {''
     @ (if truthy (cf_comparator format)
        then ln (''          comparator = '' @ in_quotes (cf_comparator format)) else [])
     @ (if cf_hide_value format \<noteq> Undefined
        then ln (''          hide_value = '' @ to_string (cf_hide_value format)) else [])
     @ (if truthy (cf_palette format)
        then ln (''          palette    = '' @ in_quotes (cf_palette format)) else [])
     @ (if cf_value format \<noteq> Undefined
        then ln (''          value      = '' @ to_string (cf_value format)) else [])
     @ ln ''        }''"

definition conditional_formats_part :: "request \<Rightarrow> string" where
  "conditional_formats_part request =
     (case request_conditional_formats request of
        None \<Rightarrow> []
      | Some formats \<Rightarrow> [newline] @ concat (map conditional_format_block formats))"

definition formula_block :: "formula_obj \<Rightarrow> string" where
  "formula_block formula =
     [newline] @ ln ''        formula {''
     @ (if truthy (formula_alias formula)
        then ln (''          alias              = ''
                 @ escapeHCLString_scalar (formula_alias formula))
        else [])
     @ ln (''          formula_expression = ''
           @ in_quotes (js_or (formula_formula formula) (formula_formula_expression formula)))
     @ (case formula_limit formula of
          None \<Rightarrow> []
        | Some limit \<Rightarrow>
            [newline] @ ln ''          limit {''
            @ (if truthy (limit_count limit)
               then ln (''            count = '' @ to_string (limit_count limit)) else [])
            @ (if truthy (limit_order limit)
               then ln (''            order = '' @ in_quotes (limit_order limit)) else [])
            @ ln ''          }'')
     @ ln ''        }''"

definition generateQueryBlock :: "query_obj \<Rightarrow> string" where
  "generateQueryBlock query =
     [newline] @ ln ''        query {''
     @ (if query_data_source query = Str ''metrics'' \<or> truthy (query_metric query)
           \<or> truthy (query_query query)
        then
          [newline] @ ln ''          metric_query {''
          @ (if truthy (query_aggregator query)
             then ln (''            aggregator  = '' @ in_quotes (query_aggregator query))
             else [])
          @ (if truthy (query_data_source query)
             then ln (''            data_source = '' @ in_quotes (query_data_source query))
             else [])
          @ (if truthy (query_name query)
             then ln (''            name        = '' @ in_quotes (query_name query))
             else [])
          @ (if truthy (query_query query)
             then ln (''            query       = ''
                      @ escapeHCLString_scalar (query_query query))
             else [])
          @ ln ''          }''
        else if query_data_source query = Str ''logs''
        then
          [newline] @ ln ''          log_query {''
          @ (if truthy (query_name query)
             then ln (''            name = '' @ in_quotes (query_name query)) else [])
          @ (if truthy (query_data_source query)
             then ln (''            data_source = '' @ in_quotes (query_data_source query))
             else [])
          @ (if truthy (search_and_query query)
             then ln ''            search {''
                  @ ln (''              query = ''
                        @ escapeHCLString_scalar (search_and_query query))
                  @ ln ''            }''
             else [])
          @ ln ''          }''
        else [])
     @ ln ''        }''"

text \<open>
  The style block of a request. The two emitters differ in the padding of the palette
  line only.
\<close>

definition request_style_block :: "string \<Rightarrow> request \<Rightarrow> string" where
  "request_style_block palette_key request =
     (case request_style request of
        None \<Rightarrow> []
      | Some style \<Rightarrow>
          [newline] @ ln ''        style {''
          @ (if truthy (style_palette style)
             then ln (palette_key @ in_quotes (style_palette style)) else [])
          @ (if truthy (style_line_type style)
             then ln (''          line_type  = '' @ in_quotes (style_line_type style))
             else [])
          @ (if truthy (style_line_width style)
             then ln (''          line_width = '' @ in_quotes (style_line_width style))
             else [])
          @ ln ''        }'')"

definition display_lines :: "request \<Rightarrow> string" where
  "display_lines request =
     (if truthy (request_display_type request)
      then ln (''        display_type   = '' @ in_quotes (request_display_type request))
      else [])
     @ (if request_on_right_yaxis request \<noteq> Undefined
        then ln (''        on_right_yaxis = '' @ to_string (request_on_right_yaxis request))
        else [])"

subsection \<open>\<^verbatim>\<open>generateModernRequests\<close>\<close>

text \<open>What the body of the \<^verbatim>\<open>if (this.hasValidRequestContent(request))\<close> appends.\<close>

definition modern_request_block :: "request \<Rightarrow> string" where
  "modern_request_block request =
     [newline] @ ln ''      request {''
     @ display_lines request
     @ conditional_formats_part request
     @ (case request_formulas request of
          None \<Rightarrow> []
        | Some formulas \<Rightarrow> concat (map formula_block formulas))
     @ (case request_queries request of
          Some queries \<Rightarrow> concat (map generateQueryBlock queries)
        | None \<Rightarrow>
            if truthy (request_q request)
            then
              [newline] @ ln ''        query {''
              @ ln ''          metric_query {''
              @ ln (''            aggregator  = ''
                    @ in_quotes (js_or (request_aggregator request) (Str ''avg'')))
              @ ln (''            data_source = '' @ quoted ''metrics'')
              @ ln (''            name        = '' @ quoted ''query1'')
              @ ln (''            query       = ''
                    @ escapeHCLString_scalar (request_q request))
              @ ln ''          }''
              @ ln ''        }''
            else [])
     @ request_style_block ''          palette = '' request
     @ ln ''      }''"

text \<open>The \<^verbatim>\<open>forEach\<close> loop, \<^verbatim>\<open>hcl\<close> being the text built so far.\<close>

definition generateModernRequests :: "request list \<Rightarrow> string" where
  "generateModernRequests requests =
     foldl (\<lambda>hcl request.
              if hasValidRequestContent request then hcl @ modern_request_block request
              else hcl)
       [] requests"

subsection \<open>\<^verbatim>\<open>generateLegacyRequests\<close>\<close>

text \<open>
  The flat query of a legacy request: \<^verbatim>\<open>request.q\<close> when it is truthy, else a value
  derived from \<^verbatim>\<open>request.queries[0]\<close>, which is undefined for an empty array.
\<close>

definition log_query_value :: "query_obj \<Rightarrow> jsval" where
  "log_query_value query =
     (let logQuery0 =
            (if truthy (compute_and_aggregation query)
             then to_string (compute_and_aggregation query) @ '':''
                  @ (case query_compute query of
                       None \<Rightarrow> []
                     | Some c \<Rightarrow>
                         if truthy (compute_metric c) then to_string (compute_metric c)
                         else [])
             else [])
      in if truthy (search_and_query query) \<and> logQuery0 = []
         then search_and_query query
         else if truthy (search_and_query query)
         then Str (logQuery0 @ '' '' @ to_string (search_and_query query))
         else Str logQuery0)"

definition legacy_q_line :: "jsval \<Rightarrow> string" where
  "legacy_q_line v = ln (''        q          = '' @ escapeHCLString_scalar v)"

definition legacy_q_part :: "request \<Rightarrow> string" where
  "legacy_q_part request =
     (if truthy (request_q request) then legacy_q_line (request_q request)
      else
        (case request_queries request of
           None \<Rightarrow> []
         | Some [] \<Rightarrow> []
         | Some (query # rest) \<Rightarrow>
             if truthy (query_query query) then legacy_q_line (query_query query)
             else if truthy (search_and_query query)
             then legacy_q_line (search_and_query query)
             else if query_data_source query = Str ''logs''
             then (if truthy (log_query_value query)
                   then legacy_q_line (log_query_value query) else [])
             else []))"

definition legacy_request_block :: "request \<Rightarrow> string" where
  "legacy_request_block request =
     [newline] @ ln ''      request {''
     @ (if truthy (request_aggregator request)
        then ln (''        aggregator = '' @ in_quotes (request_aggregator request)) else [])
     @ legacy_q_part request
     @ display_lines request
     @ conditional_formats_part request
     @ request_style_block ''          palette    = '' request
     @ ln ''      }''"

definition generateLegacyRequests :: "request list \<Rightarrow> string" where
  "generateLegacyRequests requests =
     foldl (\<lambda>hcl request.
              if hasValidRequestContent request then hcl @ legacy_request_block request
              else hcl)
       [] requests"

text \<open>
  The content test in the words of the claim: a flat query string, or a sequence of
  queries that is not empty, or a sequence of formulas that is not empty.
\<close>

definition has_flat_query_string :: "request \<Rightarrow> bool" where
  "has_flat_query_string request = (case request_q request of Str s \<Rightarrow> True | _ \<Rightarrow> False)"

definition nonempty_queries :: "request \<Rightarrow> bool" where
  "nonempty_queries request =
     (case request_queries request of Some (q # qs) \<Rightarrow> True | _ \<Rightarrow> False)"

definition nonempty_formulas :: "request \<Rightarrow> bool" where
  "nonempty_formulas request =
     (case request_formulas request of Some (f # fs) \<Rightarrow> True | _ \<Rightarrow> False)"

definition spec_valid_content :: "request \<Rightarrow> bool" where
  "spec_valid_content request =
     (has_flat_query_string request \<or> nonempty_queries request \<or> nonempty_formulas request)"

text \<open>A request with no member at all.\<close>

definition empty_request :: request where
  "empty_request =
     \<lparr> request_q = Undefined, request_aggregator = Undefined,
       request_display_type = Undefined, request_on_right_yaxis = Undefined,
       request_conditional_formats = None, request_formulas = None,
       request_queries = None, request_style = None \<rparr>"


section \<open>Widgets: the layout block\<close>

record layout_obj =
  layout_height :: jsval
  layout_width :: jsval
  layout_x :: jsval
  layout_y :: jsval

record widget =
  widget_id :: jsval
  widget_layout :: "layout_obj option"

text \<open>
  \<^verbatim>\<open>generateModernWidgetHCL\<close>. After the identifier and the layout the method appends the
  block of the widget's definition (\<^verbatim>\<open>generateConfiguredWidget\<close>) or, for a kind without
  a mapping, a few comment lines. That text does not depend on the layout; it is the
  argument \<open>definition_part\<close>, an error when producing it throws, in which case the
  method returns nothing.
\<close>

definition generateModernWidgetHCL :: "widget \<Rightarrow> error + string \<Rightarrow> error + string" where
  "generateModernWidgetHCL widget definition_part =
     (let hcl = [newline] @ ln ''  widget {''
            @ (if truthy (widget_id widget)
               then ln (''    id = '' @ in_quotes (widget_id widget)) else [])
            @ (case widget_layout widget of
                 None \<Rightarrow> []
               | Some layout \<Rightarrow>
                   ln ''    widget_layout {''
                   @ ln (''      height          = ''
                         @ to_string (js_or (layout_height layout) (Num ''8'')))
                   @ ln ''      is_column_break = false''
                   @ ln (''      width           = ''
                         @ to_string (js_or (layout_width layout) (Num ''12'')))
                   @ ln (''      x               = ''
                         @ to_string (js_or (layout_x layout) (Num ''0'')))
                   @ ln (''      y               = ''
                         @ to_string (js_or (layout_y layout) (Num ''0'')))
                   @ ln ''    }'' @ [newline])
      in case definition_part of
           Inl e \<Rightarrow> Inl e
         | Inr text \<Rightarrow> Inr (hcl @ text @ ln ''  }''))"

text \<open>\<^verbatim>\<open>generateNestedWidget\<close>, for the widgets inside a group: the same, four columns deeper.\<close>

definition generateNestedWidget :: "widget \<Rightarrow> error + string \<Rightarrow> error + string" where
  "generateNestedWidget nestedWidget definition_part =
     (let hcl = [newline] @ ln ''      widget {''
            @ (if truthy (widget_id nestedWidget)
               then ln (''        id = '' @ in_quotes (widget_id nestedWidget)) else [])
            @ (case widget_layout nestedWidget of
                 None \<Rightarrow> []
               | Some layout \<Rightarrow>
                   ln ''        widget_layout {''
                   @ ln (''          height          = ''
                         @ to_string (js_or (layout_height layout) (Num ''8'')))
                   @ ln ''          is_column_break = false''
                   @ ln (''          width           = ''
                         @ to_string (js_or (layout_width layout) (Num ''12'')))
                   @ ln (''          x               = ''
                         @ to_string (js_or (layout_x layout) (Num ''0'')))
                   @ ln (''          y               = ''
                         @ to_string (js_or (layout_y layout) (Num ''0'')))
                   @ ln ''        }'' @ [newline])
      in case definition_part of
           Inl e \<Rightarrow> Inl e
         | Inr text \<Rightarrow> Inr (hcl @ text @ ln ''      }''))"

text \<open>
  The layout block as the specification words it: the five fields in their fixed order
  behind \<open>indent\<close>, each dimension with the text given for it.
\<close>

definition spec_layout_block :: "string \<Rightarrow> string \<Rightarrow> string \<Rightarrow> string \<Rightarrow> string \<Rightarrow> string" where
  "spec_layout_block indent h w x y =
     ln (indent @ ''widget_layout {'')
     @ ln (indent @ ''  height          = '' @ h)
     @ ln (indent @ ''  is_column_break = false'')
     @ ln (indent @ ''  width           = '' @ w)
     @ ln (indent @ ''  x               = '' @ x)
     @ ln (indent @ ''  y               = '' @ y)
     @ ln (indent @ ''}'') @ [newline]"

text \<open>The text of a dimension: the one given when it is truthy, else the default.\<close>

definition dimension_text :: "jsval \<Rightarrow> string \<Rightarrow> string" where
  "dimension_text v default_text = (if truthy v then to_string v else default_text)"

text \<open>
  The definition part of a widget that has no \<^verbatim>\<open>definition\<close> member: its kind is taken
  to be \<^verbatim>\<open>unknown\<close>, no mapping has that name, and the method appends these comments
  (\<^verbatim>\<open>JSON.stringify\<close> of the empty definition is \<^verbatim>\<open>{}\<close>).
\<close>

definition unknown_widget_comments :: string where
  "unknown_widget_comments =
     ln ''    # unknown widget - configuration not yet supported''
     @ ln ''    # Please add configuration for unknown to widget mappings''
     @ ln ''    # Widget definition: {}''"

section \<open>The validator\<close>

datatype severity = Sev_error | Sev_warning | Sev_info

text \<open>
  A finding. Every \<^verbatim>\<open>issues.push\<close> of the source gives the severity as one of the three
  literals \<^verbatim>\<open>'error'\<close>, \<^verbatim>\<open>'warning'\<close>, \<^verbatim>\<open>'info'\<close>; the findings about the whole text have
  no line.
\<close>

record issue =
  issue_severity :: severity
  issue_title :: string
  issue_description :: string
  issue_line :: "nat option"
  issue_location :: string

text \<open>The decimal text of a count, as a template literal writes it.\<close>

fun show_nat :: "nat \<Rightarrow> string" where
  "show_nat n =
     (if n < 10 then [char_of (48 + n)]
      else show_nat (n div 10) @ [char_of (48 + n mod 10)])"

declare show_nat.simps [simp del]

text \<open>\<^verbatim>\<open>hclContent.split('\n')\<close>: the empty text is one empty line.\<close>

fun split_lines :: "string \<Rightarrow> string list" where
  "split_lines [] = [[]]"
| "split_lines (c # cs) =
     (if c = newline then [] # split_lines cs
      else (case split_lines cs of [] \<Rightarrow> [[c]] | l # ls \<Rightarrow> (c # l) # ls))"

text \<open>
  \<^verbatim>\<open>trim\<close> removes white space and line terminators at both ends; below 256 these are
  the codes 9 to 13, 32 and 160.
\<close>

definition is_js_space :: "char \<Rightarrow> bool" where
  "is_js_space c =
     ((9 \<le> (of_char c :: nat) \<and> (of_char c :: nat) \<le> 13)
      \<or> (of_char c :: nat) = 32 \<or> (of_char c :: nat) = 160)"

definition trim :: "string \<Rightarrow> string" where
  "trim s = rev (dropWhile is_js_space (rev (dropWhile is_js_space s)))"

definition startsWith :: "string \<Rightarrow> string \<Rightarrow> bool" where
  "startsWith s p = (take (length p) s = p)"

fun includes_str :: "string \<Rightarrow> string \<Rightarrow> bool" where
  "includes_str [] p = (p = [])"
| "includes_str (c # cs) p = (startsWith (c # cs) p \<or> includes_str cs p)"

text \<open>
  The regular-expression tests of the syntax pass are arguments of the model, one for
  each \<^verbatim>\<open>match\<close> or \<^verbatim>\<open>test\<close>: the identifier on the left of an assignment, the
  \<^verbatim>\<open>validIdentifier\<close> pattern, the list of skip patterns, the value of an assignment, and
  the list of patterns for valid unquoted values. What is proved below holds whatever
  they answer.
\<close>

record regex_tests =
  identifierMatch :: "string \<Rightarrow> string option"
  validIdentifier :: "string \<Rightarrow> bool"
  shouldSkip :: "string \<Rightarrow> bool"
  assignmentMatch :: "string \<Rightarrow> string option"
  isValidUnquoted :: "string \<Rightarrow> bool"

record syntax_state =
  braceCount :: int
  bracketCount :: int
  parenCount :: int
  st_issues :: "issue list"

definition push :: "issue \<Rightarrow> syntax_state \<Rightarrow> syntax_state" where
  "push i st = st \<lparr> st_issues := st_issues st @ [i] \<rparr>"

text \<open>
  The double quotes of a line that do not follow a backslash; \<open>prev\<close> is the character
  before, none at the start of the line.
\<close>

fun quoteCount :: "char option \<Rightarrow> string \<Rightarrow> nat" where
  "quoteCount prev [] = 0"
| "quoteCount prev (c # cs) =
     (if c = dquote \<and> prev \<noteq> Some bslash then 1 else 0) + quoteCount (Some c) cs"

text \<open>The \<^verbatim>\<open>switch\<close> over one character.\<close>

definition count_delimiter :: "syntax_state \<Rightarrow> char \<Rightarrow> syntax_state" where
  "count_delimiter st c =
     (if c = CHR ''{'' then st \<lparr> braceCount := braceCount st + 1 \<rparr>
      else if c = CHR ''}'' then st \<lparr> braceCount := braceCount st - 1 \<rparr>
      else if c = CHR ''['' then st \<lparr> bracketCount := bracketCount st + 1 \<rparr>
      else if c = CHR '']'' then st \<lparr> bracketCount := bracketCount st - 1 \<rparr>
      else if c = CHR ''('' then st \<lparr> parenCount := parenCount st + 1 \<rparr>
      else if c = CHR '')'' then st \<lparr> parenCount := parenCount st - 1 \<rparr>
      else st)"

text \<open>Empty lines and comment lines are skipped by the \<^verbatim>\<open>return\<close> at the top of the loop body.\<close>

definition skipped_line :: "string \<Rightarrow> bool" where
  "skipped_line line =
     (trim line = [] \<or> startsWith (trim line) ''#'' \<or> startsWith (trim line) ''//'')"

definition line_label :: "nat \<Rightarrow> string" where
  "line_label lineIndex = ''Line '' @ show_nat (lineIndex + 1)"

definition unclosed_string_issue :: "nat \<Rightarrow> issue" where
  "unclosed_string_issue lineIndex =
     \<lparr> issue_severity = Sev_error,
       issue_title = ''Unclosed string literal'',
       issue_description = ''String literal is not properly closed with matching quotes.'',
       issue_line = Some (lineIndex + 1),
       issue_location = line_label lineIndex \<rparr>"

definition invalid_identifier_issue :: "nat \<Rightarrow> string \<Rightarrow> issue" where
  "invalid_identifier_issue lineIndex identifier =
     \<lparr> issue_severity = Sev_error,
       issue_title = ''Invalid identifier'',
       issue_description =
         ''Identifier '' @ quoted identifier
         @ '' contains invalid characters. Identifiers must start with a letter or underscore and contain only letters, numbers, and underscores.'',
       issue_line = Some (lineIndex + 1),
       issue_location = line_label lineIndex \<rparr>"

definition unquoted_string_issue :: "nat \<Rightarrow> string \<Rightarrow> issue" where
  "unquoted_string_issue lineIndex val =
     \<lparr> issue_severity = Sev_warning,
       issue_title = ''Potentially unquoted string'',
       issue_description =
         ''Value '' @ quoted val
         @ '' might need to be quoted if it'' @ [CHR 0x27]
         @ ''s a string literal. If this is intentional (e.g., a reference or expression), you can ignore this warning.'',
       issue_line = Some (lineIndex + 1),
       issue_location = line_label lineIndex \<rparr>"

text \<open>The body of the loop over the lines.\<close>

definition check_line :: "regex_tests \<Rightarrow> nat \<Rightarrow> string \<Rightarrow> syntax_state \<Rightarrow> syntax_state" where
  "check_line rx lineIndex line st =
     (if skipped_line line then st
      else
        (let st1 = (if quoteCount None line mod 2 \<noteq> 0
                    then push (unclosed_string_issue lineIndex) st else st);
             st2 = foldl count_delimiter st1 line;
             st3 = (case identifierMatch rx line of
                      None \<Rightarrow> st2
                    | Some identifier \<Rightarrow>
                        if \<not> validIdentifier rx identifier
                        then push (invalid_identifier_issue lineIndex identifier) st2
                        else st2)
         in if includes_str line ''='' \<and> \<not> includes_str line ''==''
               \<and> \<not> includes_str line ''!='' \<and> \<not> includes_str line ''<=''
               \<and> \<not> includes_str line ''>=''
            then
              (if \<not> shouldSkip rx line
               then
                 (case assignmentMatch rx line of
                    None \<Rightarrow> st3
                  | Some m \<Rightarrow>
                      if \<not> isValidUnquoted rx (trim m) \<and> 0 < length (trim m)
                      then push (unquoted_string_issue lineIndex (trim m)) st3
                      else st3)
               else st3)
            else st3))"

fun scan_lines :: "regex_tests \<Rightarrow> nat \<Rightarrow> string list \<Rightarrow> syntax_state \<Rightarrow> syntax_state" where
  "scan_lines rx lineIndex [] st = st"
| "scan_lines rx lineIndex (line # rest) st =
     scan_lines rx (lineIndex + 1) rest (check_line rx lineIndex line st)"

text \<open>The three findings about the whole text, pushed after the loop.\<close>

definition unmatched_issue :: "string \<Rightarrow> int \<Rightarrow> issue" where
  "unmatched_issue kind n =
     \<lparr> issue_severity = Sev_error,
       issue_title = ''Unmatched '' @ kind,
       issue_description =
         ''Found '' @ show_nat (nat \<bar>n\<bar>) @ '' unmatched ''
         @ (if 0 < n then ''opening'' else ''closing'') @ '' '' @ kind @ ''.'',
       issue_line = None,
       issue_location = ''Overall structure'' \<rparr>"

definition validateBasicSyntax :: "regex_tests \<Rightarrow> string list \<Rightarrow> issue list \<Rightarrow> issue list" where
  "validateBasicSyntax rx lines issues0 =
     (let st = scan_lines rx 0 lines
                 \<lparr> braceCount = 0, bracketCount = 0, parenCount = 0, st_issues = issues0 \<rparr>;
          st1 = (if braceCount st \<noteq> 0
                 then push (unmatched_issue ''braces'' (braceCount st)) st else st);
          st2 = (if bracketCount st \<noteq> 0
                 then push (unmatched_issue ''brackets'' (bracketCount st)) st1
                 else st1);
          st3 = (if parenCount st \<noteq> 0
                 then push (unmatched_issue ''parentheses'' (parenCount st)) st2
                 else st2)
      in st_issues st3)"

subsection \<open>\<^verbatim>\<open>performHCLValidation\<close>\<close>

text \<open>
  The three other passes take the text and the findings so far and return the findings
  with their own added; they are arguments of the model.
\<close>

record validator_passes =
  validateTerraformStructure :: "string \<Rightarrow> issue list \<Rightarrow> issue list"
  validateDatadogProvider :: "string \<Rightarrow> issue list \<Rightarrow> issue list"
  validateBestPractices :: "string \<Rightarrow> issue list \<Rightarrow> issue list"

record validation_summary =
  summary_errors :: nat
  summary_warnings :: nat
  summary_infos :: nat
  summary_total :: nat

record validation_result =
  isValid :: bool
  result_issues :: "issue list"
  result_summary :: validation_summary

definition performHCLValidation ::
  "regex_tests \<Rightarrow> validator_passes \<Rightarrow> string \<Rightarrow> validation_result" where
  "performHCLValidation rx passes hclContent =
     (let lines = split_lines hclContent;
          issues1 = validateBasicSyntax rx lines [];
          issues2 = validateTerraformStructure passes hclContent issues1;
          issues3 = validateDatadogProvider passes hclContent issues2;
          issues = validateBestPractices passes hclContent issues3;
          errors = filter (\<lambda>i. issue_severity i = Sev_error) issues;
          warnings = filter (\<lambda>i. issue_severity i = Sev_warning) issues;
          infos = filter (\<lambda>i. issue_severity i = Sev_info) issues
      in \<lparr> isValid = (length errors = 0),
           result_issues = issues,
           result_summary =
             \<lparr> summary_errors = length errors,
               summary_warnings = length warnings,
               summary_infos = length infos,
               summary_total = length issues \<rparr> \<rparr>)"

text \<open>
  The braces the pass counts, in the words of the claim: opening braces less closing
  braces over the lines that are neither empty nor comments.
\<close>

definition scanned_text :: "string list \<Rightarrow> string" where
  "scanned_text lines = concat (filter (\<lambda>l. \<not> skipped_line l) lines)"

definition brace_excess :: "string list \<Rightarrow> int" where
  "brace_excess lines =
     int (count_list (scanned_text lines) (CHR ''{''))
     - int (count_list (scanned_text lines) (CHR ''}''))"

text \<open>Tests that flag nothing, and passes that add nothing, to run the model on an input.\<close>

definition quiet_tests :: regex_tests where
  "quiet_tests =
     \<lparr> identifierMatch = (\<lambda>l. None), validIdentifier = (\<lambda>i. True), shouldSkip = (\<lambda>l. True),
       assignmentMatch = (\<lambda>l. None), isValidUnquoted = (\<lambda>v. True) \<rparr>"

definition quiet_passes :: validator_passes where
  "quiet_passes =
     \<lparr> validateTerraformStructure = (\<lambda>t found. found), validateDatadogProvider = (\<lambda>t found. found),
       validateBestPractices = (\<lambda>t found. found) \<rparr>"

text \<open>Helpers for stating the properties of the syntax pass.\<close>

definition line_excess :: "string \<Rightarrow> int" where
  "line_excess line = int (count_list line (CHR ''{'')) - int (count_list line (CHR ''}''))"

abbreviation is_brace_issue :: "issue \<Rightarrow> bool" where
  "is_brace_issue \<equiv> (\<lambda>i. issue_title i = ''Unmatched braces'')"

definition no_comments_info :: issue where
  "no_comments_info =
     \<lparr> issue_severity = Sev_info, issue_title = ''No comments found'',
       issue_description = ''Consider adding comments to explain complex configurations.'',
       issue_line = None, issue_location = ''Overall structure'' \<rparr>"

text \<open>
  Passes of which the last adds the finding that the best-practices pass of the source
  adds to a text without a comment.
\<close>

definition hint_passes :: validator_passes where
  "hint_passes =
     quiet_passes \<lparr> validateBestPractices := (\<lambda>t found. found @ [no_comments_info]) \<rparr>"

text \<open>
  The name in the words of the claim, with definitions of its own for each step. The
  title is lower-cased: among the code units below 256 the capital letters, ASCII and
  Latin-1, move to the small letter 32 places on. Every character that is not a
  lowercase letter, a digit or the underscore becomes an underscore. Every run of
  underscores becomes one underscore. The underscores at both ends are trimmed, and the
  result is cut to 50 characters.
\<close>

definition capital_letters :: string where
  "capital_letters =
     ''ABCDEFGHIJKLMNOPQRSTUVWXYZ'' @ map char_of ([192..<215] @ [216..<223] :: nat list)"

definition claimed_lower :: "char \<Rightarrow> char" where
  "claimed_lower c =
     (if c \<in> set capital_letters then char_of ((of_char c :: nat) + 32) else c)"

definition kept_characters :: string where
  "kept_characters = ''abcdefghijklmnopqrstuvwxyz0123456789_''"

definition claimed_replace :: "char \<Rightarrow> char" where
  "claimed_replace c = (if c \<in> set kept_characters then c else uscore)"

function claimed_collapse :: "string \<Rightarrow> string" where
  "claimed_collapse [] = []"
| "claimed_collapse (c # cs) =
     (if c = uscore then uscore # claimed_collapse (dropWhile (\<lambda>x. x = uscore) cs)
      else c # claimed_collapse cs)"
  by pat_completeness auto
termination
  by (relation "measure length") (auto simp: le_imp_less_Suc length_dropWhile_le)

definition claimed_name :: "string \<Rightarrow> string" where
  "claimed_name title =
     take 50 (trim_underscores (claimed_collapse (map claimed_replace (map claimed_lower title))))"









text \<open>
  Unmatched braces in the words of the claim: going through a text, a closing brace
  matches the nearest opening brace before it that is not matched yet. \<open>opened\<close> counts
  the opening braces still without a match, \<open>stray\<close> the closing braces that found none.
\<close>

definition match_brace :: "nat \<times> nat \<Rightarrow> char \<Rightarrow> nat \<times> nat" where
  "match_brace st c =
     (case st of (opened, stray) \<Rightarrow>
        if c = CHR ''{'' then (opened + 1, stray)
        else if c = CHR ''}''
        then (if 0 < opened then (opened - 1, stray) else (opened, stray + 1))
        else (opened, stray))"

definition unmatched_opening :: "string \<Rightarrow> nat" where
  "unmatched_opening s = fst (foldl match_brace (0, 0) s)"

definition unmatched_closing :: "string \<Rightarrow> nat" where
  "unmatched_closing s = snd (foldl match_brace (0, 0) s)"

text \<open>
  The lines that count, in words of their own: a line is left out when it has nothing
  but white space, or when its first character after the white space is \<open>#\<close> or its
  first two are \<open>//\<close>.
\<close>

definition claimed_skipped :: "string \<Rightarrow> bool" where
  "claimed_skipped line =
     (case dropWhile is_js_space line of
        [] \<Rightarrow> True
      | c # cs \<Rightarrow>
          c = CHR ''#''
          \<or> (c = CHR ''/'' \<and> (case cs of [] \<Rightarrow> False | d # ds \<Rightarrow> d = CHR ''/'')))"

definition code_lines_text :: "string list \<Rightarrow> string" where
  "code_lines_text lines = concat (filter (\<lambda>l. \<not> claimed_skipped l) lines)"

text \<open>The finding for one opening brace too many, and a text to run the pass on.\<close>

definition unmatched_braces_error :: issue where
  "unmatched_braces_error =
     \<lparr> issue_severity = Sev_error,
       issue_title = ''Unmatched braces'',
       issue_description = ''Found 1 unmatched opening braces.'',
       issue_line = None,
       issue_location = ''Overall structure'' \<rparr>"

definition nested_block_text :: string where
  "nested_block_text =
     ''# widgets {'' @ [newline]
     @ ''resource x {'' @ [newline]
     @ ''  widget {'' @ [newline]
     @ ''  }''"

section \<open>Properties of the value formatter\<close>

lemma replace_char_concat:
  "replace_char c r (concat (map f s)) = concat (map (\<lambda>x. replace_char c r (f x)) s)"
  by (induction s) (simp_all add: replace_char_def)

lemma replace_char_as_concat:
  "replace_char c r s = concat (map (\<lambda>x. replace_char c r [x]) s)"
  by (induction s) (simp_all add: replace_char_def)

lemma escape_chain_single: "escape_chain [c] = escape_one c"
  by (simp add: escape_chain_def escape_one_def replace_char_def)

lemma escape_chain_concat: "escape_chain s = concat (map (\<lambda>x. escape_chain [x]) s)"
  unfolding escape_chain_def
  apply (subst replace_char_as_concat[of bslash])
  apply (simp only: replace_char_concat)
  done

text \<open>
  The five passes of the source, backslash first, do what one pass over the characters
  does: no later pass touches what an earlier one wrote.
\<close>

lemma escape_chain_spec: "escape_chain s = escape_spec s"
  by (subst escape_chain_concat) (simp add: escape_chain_single escape_spec_def)

lemma escape_spec_no_raw:
  "newline \<notin> set (escape_spec s)"
  "creturn \<notin> set (escape_spec s)"
  "tabchar \<notin> set (escape_spec s)"
  by (induction s) (simp_all add: escape_spec_def escape_one_def)

lemma escapeHCLString_on_scalar: "escapeHCLString (Scalar v) = Inr (escapeHCLString_scalar v)"
  by (cases v) simp_all

text \<open>
  C4, as stated, fails: the formatter escapes backslash, double quote, newline, carriage
  return and tab only. A form feed (code 12) is a control character and is copied into
  the literal as it is.
\<close>

theorem escapeHCLString_form_feed_counterexample:
  "escapeHCLString (Scalar (Str [CHR 0x0C])) = Inr [dquote, CHR 0x0C, dquote]
   \<and> has_raw_control [dquote, CHR 0x0C, dquote]"
  by (simp add: quoted_def escape_chain_def replace_char_def has_raw_control_def is_control_def)

text \<open>
  C4, amended: on every string the formatter returns the string between double quotes
  with backslash, double quote, newline, carriage return and tab each replaced by their
  two-character escape, so that no raw newline, carriage return or tab is left (other
  control characters are copied unchanged); every other scalar (number, boolean, null,
  undefined) is returned as its text between double quotes; on strings and scalars the
  formatter raises no error.
\<close>

theorem escapeHCLString_escapes:
  "escapeHCLString (Scalar (Str s)) = Inr (quoted (escape_spec s))
   \<and> newline \<notin> set (escape_spec s)
   \<and> creturn \<notin> set (escape_spec s)
   \<and> tabchar \<notin> set (escape_spec s)
   \<and> (\<exists>out. escapeHCLString (Scalar v) = Inr out)
   \<and> ((\<forall>t. v \<noteq> Str t) \<longrightarrow> escapeHCLString (Scalar v) = Inr (quoted (to_string v)))"
proof -
  have a: "escapeHCLString (Scalar (Str s)) = Inr (quoted (escape_spec s))"
    by (simp add: escape_chain_spec)
  have b: "\<exists>out. escapeHCLString (Scalar v) = Inr out"
    by (simp add: escapeHCLString_on_scalar)
  have c: "(\<forall>t. v \<noteq> Str t) \<longrightarrow> escapeHCLString (Scalar v) = Inr (quoted (to_string v))"
    by (cases v) simp_all
  from a b c escape_spec_no_raw [of s] show ?thesis by blast
qed

theorem escapeHCLString_escapes_witness:
  "escapeHCLString (Scalar (Str [CHR ''a'', dquote, newline, bslash]))
     = Inr [dquote, CHR ''a'', bslash, dquote, bslash, CHR ''n'', bslash, bslash, dquote]
   \<and> (\<forall>t. Num ''42'' \<noteq> Str t)
   \<and> escapeHCLString (Scalar (Num ''42'')) = Inr [dquote, CHR ''4'', CHR ''2'', dquote]"
  using escapeHCLString_escapes [of "[CHR ''a'', dquote, newline, bslash]" "Num ''42''"]
  by (simp add: quoted_def escape_spec_def escape_one_def)

section \<open>Properties of the resource name\<close>

lemma collapse_hd:
  "collapse_underscores (a # cs) \<noteq> [] \<and> hd (collapse_underscores (a # cs)) = a"
  by (induction "a # cs" arbitrary: a cs rule: collapse_underscores.induct) auto

lemma no_run_collapse: "no_run (collapse_underscores s)"
  unfolding no_run_def
  by (induction s rule: collapse_underscores.induct) (auto simp: successively_Cons collapse_hd)

lemma lead_strip:
  assumes "no_run s"
  shows "(case s of [] \<Rightarrow> [] | c # cs \<Rightarrow> if c = uscore then cs else s)
         = dropWhile (\<lambda>c. c = uscore) s"
proof (cases s)
  case Nil
  then show ?thesis by simp
next
  case outer: (Cons c cs)
  show ?thesis
  proof (cases cs)
    case Nil
    with outer show ?thesis by simp
  next
    case (Cons d ds)
    with outer assms show ?thesis by (auto simp: no_run_def)
  qed
qed

lemma trail_strip:
  assumes "no_run s"
  shows "(if s \<noteq> [] \<and> last s = uscore then butlast s else s)
         = rev (dropWhile (\<lambda>c. c = uscore) (rev s))"
proof (cases s rule: rev_cases)
  case Nil
  then show ?thesis by simp
next
  case outer: (snoc ys y)
  show ?thesis
  proof (cases ys rule: rev_cases)
    case Nil
    with outer show ?thesis by simp
  next
    case (snoc zs z)
    with outer assms show ?thesis
      by (auto simp: no_run_def successively_append_iff butlast_append)
  qed
qed

lemma no_run_dropWhile: "no_run s \<Longrightarrow> no_run (dropWhile P s)"
  unfolding no_run_def
  by (induction s) (auto simp: successively_Cons)

text \<open>
  Once runs are collapsed, removing one underscore on each side (the source) removes
  them all (the specification).
\<close>

lemma strip_is_trim: "no_run s \<Longrightarrow> strip_edge_underscores s = trim_underscores s"
  unfolding strip_edge_underscores_def trim_underscores_def Let_def
  by (simp only: lead_strip) (metis trail_strip no_run_dropWhile)

lemma generateResourceName_refines:
  "generateResourceName title False =
     (if spec_resource_name title = [] then ''imported_dashboard''
      else spec_resource_name title)"
  by (simp add: generateResourceName_def spec_resource_name_def Let_def strip_is_trim
      no_run_collapse replace_outside_def toLowerCase_def)

lemma dashboard_resource_name_absent:
  "map_of (rev kvs) ''title'' = None \<Longrightarrow>
     dashboard_resource_name (Obj kvs) = Inr ''imported_dashboard''"
  by (simp add: dashboard_resource_name_def js_or_json_def) code_simp

lemma dashboard_resource_name_string:
  "dashboard_resource_name (Obj [(''title'', Scalar (Str title))]) =
     Inr (if title = [] then ''imported_dashboard'' else generateResourceName title False)"
  by (simp add: dashboard_resource_name_def js_or_json_def) code_simp

text \<open>The steps of the claim are the steps of the source.\<close>

lemma in_map_char_of:
  assumes "\<forall>n \<in> ns. n < 256"
  shows "c \<in> char_of ` ns \<longleftrightarrow> (of_char c :: nat) \<in> ns"
proof
  assume "c \<in> char_of ` ns"
  then obtain n where n: "n \<in> ns" "c = char_of n" by auto
  with assms have "n < 256" by blast
  then have "(of_char (char_of n :: char) :: nat) = n" by simp
  with n show "(of_char c :: nat) \<in> ns" by simp
next
  assume "(of_char c :: nat) \<in> ns"
  then have "char_of (of_char c :: nat) \<in> char_of ` ns" by (rule imageI)
  then show "c \<in> char_of ` ns" by simp
qed

lemma capital_literal:
  "capital_letters = map char_of ([65..<91] @ [192..<215] @ [216..<223] :: nat list)"
proof -
  have "''ABCDEFGHIJKLMNOPQRSTUVWXYZ'' = map char_of [65..<91 :: nat]"
    by code_simp
  then show ?thesis
    by (simp only: capital_letters_def map_append)
qed

lemma capital_iff:
  "c \<in> set capital_letters \<longleftrightarrow>
     (let n = (of_char c :: nat) in (65 \<le> n \<and> n \<le> 90) \<or> (192 \<le> n \<and> n \<le> 222 \<and> n \<noteq> 215))"
proof -
  have s: "set capital_letters = char_of ` ({65..<91} \<union> {192..<215} \<union> {216..<223} :: nat set)"
    unfolding capital_literal by (simp only: set_map set_append set_upt Un_assoc)
  show ?thesis
    unfolding s by (subst in_map_char_of) (auto simp: Let_def)
qed

lemma claimed_lower_eq: "claimed_lower c = lower_char c"
  using capital_iff [of c] by (simp add: claimed_lower_def lower_char_def Let_def)

lemma kept_literal: "kept_characters = map char_of ([97..<123] @ [48..<58] @ [95] :: nat list)"
  unfolding kept_characters_def by code_simp

lemma kept_iff: "c \<in> set kept_characters \<longleftrightarrow> name_char_lower c"
proof -
  have u: "c = uscore \<longleftrightarrow> (of_char c :: nat) = 95"
    using of_char_eq_iff [of c uscore, where ?'a = nat] by simp
  have s: "set kept_characters = char_of ` ({97..<123} \<union> {48..<58} \<union> {95} :: nat set)"
    unfolding kept_literal by (simp only: set_map set_append set_upt list.set Un_assoc)
  show ?thesis
    unfolding s
    by (subst in_map_char_of) (auto simp: name_char_lower_def is_lower_az_def is_digit_def u)
qed

lemma collapse_uscore_run:
  "collapse_underscores (uscore # cs) = uscore # collapse_underscores (dropWhile (\<lambda>x. x = uscore) cs)"
proof (induction cs)
  case Nil then show ?case by simp
next
  case (Cons d ds)
  show ?case
  proof (cases "d = uscore")
    case True with Cons show ?thesis by simp
  next
    case False then show ?thesis by simp
  qed
qed

lemma collapse_other: "c \<noteq> uscore \<Longrightarrow> collapse_underscores (c # cs) = c # collapse_underscores cs"
  by (cases cs) simp_all

lemma claimed_collapse_eq: "claimed_collapse s = collapse_underscores s"
  by (induction s rule: claimed_collapse.induct) (simp_all add: collapse_uscore_run collapse_other)

lemma claimed_name_eq: "claimed_name title = spec_resource_name title"
  by (simp add: claimed_name_def spec_resource_name_def claimed_collapse_eq claimed_replace_def
      kept_iff claimed_lower_eq comp_def)

text \<open>
  C2, as stated, fails: the name is not the result of the pipeline for every title. For
  the title \<open>---\<close> the pipeline leaves the empty string, and the source returns the
  fallback \<open>imported_dashboard\<close> in its place.
\<close>

theorem generateResourceName_empty_pipeline_counterexample:
  "claimed_name ''---'' = []
   \<and> generateResourceName ''---'' False = ''imported_dashboard''"
proof -
  have "spec_resource_name ''---'' = []" by code_simp
  then have a: "claimed_name ''---'' = []" by (simp only: claimed_name_eq)
  have b: "generateResourceName ''---'' False = ''imported_dashboard''" by code_simp
  from a b show ?thesis by blast
qed

text \<open>
  C2, amended: for every title string the resource name is the title lower-cased, every
  character outside lowercase letters, digits and underscore replaced by an underscore,
  runs of underscores collapsed to one, leading and trailing underscores trimmed, and the
  result cut to 50 characters, whenever that result is not empty; when it is empty the
  name is the fallback \<open>imported_dashboard\<close>. The title \<open>Sample Application Dashboard\<close>
  gives \<open>sample_application_dashboard\<close>; an empty title and an absent title give the
  fallback.
\<close>

theorem generateResourceName_pipeline_or_fallback:
  "generateResourceName title False =
     (if claimed_name title = [] then ''imported_dashboard'' else claimed_name title)
   \<and> length (claimed_name title) \<le> 50
   \<and> generateResourceName ''Sample Application Dashboard'' False
       = ''sample_application_dashboard''
   \<and> generateResourceName ''CPU 95th % (prod-2)'' False = ''cpu_95th_prod_2''
   \<and> dashboard_resource_name
         (Obj [(''title'', Scalar (Str ''Sample Application Dashboard''))])
       = Inr ''sample_application_dashboard''
   \<and> dashboard_resource_name (Obj [(''title'', Scalar (Str []))])
       = Inr ''imported_dashboard''
   \<and> (map_of (rev kvs) ''title'' = None
        \<longrightarrow> dashboard_resource_name (Obj kvs) = Inr ''imported_dashboard'')"
proof -
  have sample: "generateResourceName ''Sample Application Dashboard'' False
      = ''sample_application_dashboard''"
    by code_simp
  have digits: "generateResourceName ''CPU 95th % (prod-2)'' False = ''cpu_95th_prod_2''"
    by code_simp
  have len: "length (claimed_name title) \<le> 50"
    by (simp add: claimed_name_def)
  have doc: "dashboard_resource_name
         (Obj [(''title'', Scalar (Str ''Sample Application Dashboard''))])
       = Inr ''sample_application_dashboard''"
    by (simp only: dashboard_resource_name_string sample) simp
  have empty: "dashboard_resource_name (Obj [(''title'', Scalar (Str []))])
       = Inr ''imported_dashboard''"
    by (simp only: dashboard_resource_name_string) simp
  have eq: "generateResourceName title False =
     (if claimed_name title = [] then ''imported_dashboard'' else claimed_name title)"
    by (simp only: claimed_name_eq generateResourceName_refines)
  from sample digits len doc empty eq dashboard_resource_name_absent [of kvs]
  show ?thesis by blast
qed

theorem generateResourceName_pipeline_or_fallback_witness:
  "generateResourceName ''Modern Sample Dashboard'' False = claimed_name ''Modern Sample Dashboard''
   \<and> claimed_name ''Modern Sample Dashboard'' = ''modern_sample_dashboard''
   \<and> map_of (rev [(''id'', Scalar (Str ''abc-def-ghi''))]) ''title'' = None
   \<and> dashboard_resource_name (Obj [(''id'', Scalar (Str ''abc-def-ghi''))])
       = Inr ''imported_dashboard''"
proof -
  have "spec_resource_name ''Modern Sample Dashboard'' = ''modern_sample_dashboard''"
    by code_simp
  then have c: "claimed_name ''Modern Sample Dashboard'' = ''modern_sample_dashboard''"
    by (simp only: claimed_name_eq)
  from c generateResourceName_pipeline_or_fallback
    [of "''Modern Sample Dashboard''" "[(''id'', Scalar (Str ''abc-def-ghi''))]"]
  show ?thesis by simp
qed

text \<open>
  C10: a title that is not empty but whose sanitization is empty (nothing but
  characters outside lowercase letters, digits and underscore, or nothing left after
  collapsing and trimming) gets the fallback \<open>imported_dashboard\<close>, the name of a
  dashboard without a title.
\<close>

theorem generateResourceName_fallback_on_empty_sanitization:
  assumes "title \<noteq> []" and "spec_resource_name title = []"
  shows "generateResourceName title False = ''imported_dashboard''
    \<and> dashboard_resource_name (Obj [(''title'', Scalar (Str title))])
        = dashboard_resource_name (Obj [])"
proof -
  have name: "generateResourceName title False = ''imported_dashboard''"
    using assms(2) by (simp add: generateResourceName_refines)
  have absent: "dashboard_resource_name (Obj []) = Inr ''imported_dashboard''"
    by (rule dashboard_resource_name_absent) simp
  from name absent assms(1) show ?thesis
    by (simp add: dashboard_resource_name_string)
qed

theorem generateResourceName_fallback_on_empty_sanitization_witness:
  "''!!!'' \<noteq> [] \<and> spec_resource_name ''!!!'' = []
   \<and> generateResourceName ''!!!'' False = ''imported_dashboard''
   \<and> dashboard_resource_name (Obj [(''title'', Scalar (Str ''!!!''))])
        = dashboard_resource_name (Obj [])"
proof -
  have h1: "''!!!'' \<noteq> []" by simp
  have h2: "spec_resource_name ''!!!'' = []" by code_simp
  from h1 h2 generateResourceName_fallback_on_empty_sanitization [OF h1 h2]
  show ?thesis by blast
qed

section \<open>Properties of input validation\<close>

lemma validateDashboardData_cases:
  "validateDashboardData data =
     (case data of
        Obj kvs \<Rightarrow>
          if member_truthy kvs ''title'' \<or> member_truthy kvs ''id'' then Inr ()
          else Inl (InputError ''Dashboard must have either a title or id field'')
      | Arr xs \<Rightarrow> Inl (InputError ''Dashboard must have either a title or id field'')
      | Scalar v \<Rightarrow> Inl (InputError ''Invalid JSON: Expected an object''))"
proof (cases data)
  case (Scalar v)
  then show ?thesis by (cases v) (simp_all add: validateDashboardData_def)
next
  case (Arr xs)
  then show ?thesis by (simp add: validateDashboardData_def)
next
  case (Obj kvs)
  then show ?thesis
    by (simp add: validateDashboardData_def member_truthy_def split: option.splits)
qed

lemma to_string_json_no_input_error:
  "to_string_json v \<noteq> Inl (InputError m)" "join_json vs \<noteq> Inl (InputError m)"
  by (induction v and vs rule: to_string_json_join_json.induct) (auto split: sum.splits)

lemma escapeHCLString_no_input_error: "escapeHCLString v \<noteq> Inl (InputError m)"
  using to_string_json_no_input_error(1) [of v m]
  by (cases v rule: escapeHCLString.cases) (auto split: sum.splits)

lemma get_member_no_input_error: "get_member v k \<noteq> Inl (InputError m)"
  by (cases "(v, k)" rule: get_member.cases) (auto split: option.splits)

lemma generateResourceName_json_no_input_error:
  "generateResourceName_json v p \<noteq> Inl (InputError m)"
  by (cases "(v, p)" rule: generateResourceName_json.cases) auto

lemma dashboard_resource_name_no_input_error:
  "dashboard_resource_name v \<noteq> Inl (InputError m)"
  using get_member_no_input_error generateResourceName_json_no_input_error
  by (auto simp: dashboard_resource_name_def split: sum.splits)

text \<open>Generation itself never raises an input-validation error: what it raises is a TypeError.\<close>

lemma generateHCL_header_no_input_error: "generateHCL_header v \<noteq> Inl (InputError m)"
  unfolding generateHCL_header_def
  using get_member_no_input_error [of v _ m] escapeHCLString_no_input_error [of _ m]
    dashboard_resource_name_no_input_error [of v m]
  by (auto split: sum.splits if_splits simp: map_sum_def)

text \<open>
  C3, as stated, fails twice. A dashboard whose title member is the empty string has a
  title member, yet validation raises the input-validation error: the source tests the
  members for truthiness, not for presence. And a dashboard whose title is the number 5
  passes validation, after which \<^verbatim>\<open>generateHCL\<close> calls \<^verbatim>\<open>toLowerCase\<close> on the number and
  the conversion fails with a TypeError: not every other input completes.
\<close>

theorem validateDashboardData_counterexample:
  "\<not> spec_rejected (Obj [(''title'', Scalar (Str []))])
   \<and> validateDashboardData (Obj [(''title'', Scalar (Str []))])
       = Inl (InputError ''Dashboard must have either a title or id field'')
   \<and> \<not> spec_rejected (Obj [(''title'', Scalar (Num ''5''))])
   \<and> validateDashboardData (Obj [(''title'', Scalar (Num ''5''))]) = Inr ()
   \<and> convert_start (Obj [(''title'', Scalar (Num ''5''))]) = Inl TypeError"
  by (simp add: spec_rejected_def is_keyed_def has_member_def validateDashboardData_def
      convert_start_def generateHCL_header_def js_or_json_def dashboard_resource_name_def
      quoted_def)

text \<open>
  C3, amended: conversion raises an input-validation error, before any output text is
  emitted, if and only if the parsed input is not an object with a truthy title or a
  truthy id: that is, when it is null or a primitive, when it is an array, or when it is
  an object whose title and id are both absent or falsy (empty string, 0, false, null).
  Validation raises nothing else, and the statements of \<^verbatim>\<open>generateHCL\<close> modelled here
  raise no input-validation error (the method has no \<^verbatim>\<open>throw\<close> of its own). Nothing is
  claimed about the inputs that pass validation completing the emission.
\<close>

theorem validateDashboardData_rejects_iff:
  "(validateDashboardData data = Inr () \<longleftrightarrow>
      (\<exists>kvs. data = Obj kvs \<and> (member_truthy kvs ''title'' \<or> member_truthy kvs ''id'')))
   \<and> (validateDashboardData data = Inr ()
        \<or> (\<exists>msg. validateDashboardData data = Inl (InputError msg)))
   \<and> (\<forall>msg. convert_start data = Inl (InputError msg)
          \<longleftrightarrow> validateDashboardData data = Inl (InputError msg))"
proof -
  have a: "validateDashboardData data = Inr () \<longleftrightarrow>
      (\<exists>kvs. data = Obj kvs \<and> (member_truthy kvs ''title'' \<or> member_truthy kvs ''id''))"
    by (cases data) (simp_all add: validateDashboardData_cases)
  have b: "validateDashboardData data = Inr ()
        \<or> (\<exists>msg. validateDashboardData data = Inl (InputError msg))"
    by (cases data) (simp_all add: validateDashboardData_cases)
  have c: "convert_start data = Inl (InputError msg)
          \<longleftrightarrow> validateDashboardData data = Inl (InputError msg)" for msg
    using generateHCL_header_no_input_error [of data msg]
    by (cases "validateDashboardData data") (simp_all add: convert_start_def)
  from a b c show ?thesis by blast
qed

theorem validateDashboardData_rejects_iff_witness:
  "validateDashboardData (Obj [(''id'', Scalar (Str ''abc-def-ghi''))]) = Inr ()
   \<and> member_truthy [(''id'', Scalar (Str ''abc-def-ghi''))] ''id''
   \<and> convert_start (Scalar (Str ''x'')) = Inl (InputError ''Invalid JSON: Expected an object'')
   \<and> convert_start (Obj [(''title'', Scalar (Str []))])
       = Inl (InputError ''Dashboard must have either a title or id field'')"
proof -
  have v1: "validateDashboardData (Scalar (Str ''x''))
      = Inl (InputError ''Invalid JSON: Expected an object'')"
    by (simp add: validateDashboardData_def)
  have v2: "validateDashboardData (Obj [(''title'', Scalar (Str []))])
      = Inl (InputError ''Dashboard must have either a title or id field'')"
    by (simp add: validateDashboardData_def)
  have m: "member_truthy [(''id'', Scalar (Str ''abc-def-ghi''))] ''id''"
    by (simp add: member_truthy_def)
  from v1 v2 m
    validateDashboardData_rejects_iff [of "Obj [(''id'', Scalar (Str ''abc-def-ghi''))]"]
    validateDashboardData_rejects_iff [of "Scalar (Str ''x'')"]
    validateDashboardData_rejects_iff [of "Obj [(''title'', Scalar (Str []))]"]
  show ?thesis by blast
qed

section \<open>Properties of the request emitters\<close>

lemma foldl_append_when:
  "foldl (\<lambda>hcl x. if P x then hcl @ f x else hcl) acc xs
     = acc @ concat (map (\<lambda>x. if P x then f x else []) xs)"
  by (induction xs arbitrary: acc) simp_all

lemma generateModernRequests_concat:
  "generateModernRequests requests =
     concat (map (\<lambda>r. if hasValidRequestContent r then modern_request_block r else [])
       requests)"
  by (simp add: generateModernRequests_def foldl_append_when)

lemma generateLegacyRequests_concat:
  "generateLegacyRequests requests =
     concat (map (\<lambda>r. if hasValidRequestContent r then legacy_request_block r else [])
       requests)"
  by (simp add: generateLegacyRequests_def foldl_append_when)

lemma hasValidRequestContent_iff:
  "hasValidRequestContent request \<longleftrightarrow>
     truthy (request_q request) \<or> nonempty_queries request \<or> nonempty_formulas request"
  by (auto simp: hasValidRequestContent_def nonempty_queries_def nonempty_formulas_def
      split: option.splits list.splits)

lemma request_blocks_nonempty:
  "modern_request_block request \<noteq> []" "legacy_request_block request \<noteq> []"
  by (simp_all add: modern_request_block_def legacy_request_block_def)

text \<open>
  C1, as stated, fails: a request whose flat query \<^verbatim>\<open>q\<close> is the empty string has a flat
  query string, but \<^verbatim>\<open>hasValidRequestContent\<close> tests \<^verbatim>\<open>request.q\<close> for truthiness, and
  neither emitter writes a block for it.
\<close>

theorem request_empty_q_counterexample:
  "spec_valid_content (empty_request \<lparr> request_q := Str [] \<rparr>)
   \<and> generateModernRequests [empty_request \<lparr> request_q := Str [] \<rparr>] = []
   \<and> generateLegacyRequests [empty_request \<lparr> request_q := Str [] \<rparr>] = []"
  by (simp add: spec_valid_content_def has_flat_query_string_def empty_request_def
      generateModernRequests_def generateLegacyRequests_def hasValidRequestContent_def)

text \<open>
  C1, amended: for every request passed to the modern or the legacy emitter, a request
  block is emitted if and only if the request has a flat query \<^verbatim>\<open>q\<close> that is truthy (a
  string that is not empty), or a sequence of queries that is not empty, or a sequence of
  formulas that is not empty; any other request adds nothing to the output, and the
  requests before and after it are emitted as without it.
\<close>

theorem request_block_iff_content:
  "generateModernRequests (before @ request # after) =
      generateModernRequests before
      @ (if truthy (request_q request) \<or> nonempty_queries request
            \<or> nonempty_formulas request
         then modern_request_block request else [])
      @ generateModernRequests after
   \<and> generateLegacyRequests (before @ request # after) =
      generateLegacyRequests before
      @ (if truthy (request_q request) \<or> nonempty_queries request
            \<or> nonempty_formulas request
         then legacy_request_block request else [])
      @ generateLegacyRequests after
   \<and> (generateModernRequests [request] \<noteq> [] \<longleftrightarrow>
        truthy (request_q request) \<or> nonempty_queries request \<or> nonempty_formulas request)
   \<and> (generateLegacyRequests [request] \<noteq> [] \<longleftrightarrow>
        truthy (request_q request) \<or> nonempty_queries request \<or> nonempty_formulas request)"
proof -
  have m: "generateModernRequests (before @ request # after) =
      generateModernRequests before
      @ (if truthy (request_q request) \<or> nonempty_queries request
            \<or> nonempty_formulas request
         then modern_request_block request else [])
      @ generateModernRequests after"
    by (simp add: generateModernRequests_concat hasValidRequestContent_iff)
  have l: "generateLegacyRequests (before @ request # after) =
      generateLegacyRequests before
      @ (if truthy (request_q request) \<or> nonempty_queries request
            \<or> nonempty_formulas request
         then legacy_request_block request else [])
      @ generateLegacyRequests after"
    by (simp add: generateLegacyRequests_concat hasValidRequestContent_iff)
  have m1: "generateModernRequests [request] \<noteq> [] \<longleftrightarrow>
        truthy (request_q request) \<or> nonempty_queries request \<or> nonempty_formulas request"
    by (simp add: generateModernRequests_concat hasValidRequestContent_iff
        request_blocks_nonempty)
  have l1: "generateLegacyRequests [request] \<noteq> [] \<longleftrightarrow>
        truthy (request_q request) \<or> nonempty_queries request \<or> nonempty_formulas request"
    by (simp add: generateLegacyRequests_concat hasValidRequestContent_iff
        request_blocks_nonempty)
  from m l m1 l1 show ?thesis by blast
qed

theorem request_block_iff_content_witness:
  "truthy (request_q (empty_request \<lparr> request_q := Str ''avg:system.cpu.user{*}'' \<rparr>))
   \<and> generateModernRequests [empty_request \<lparr> request_q := Str ''avg:system.cpu.user{*}'' \<rparr>]
       \<noteq> []
   \<and> generateLegacyRequests
        [empty_request, empty_request \<lparr> request_q := Str ''avg:system.cpu.user{*}'' \<rparr>]
       = legacy_request_block (empty_request \<lparr> request_q := Str ''avg:system.cpu.user{*}'' \<rparr>)
   \<and> generateModernRequests [empty_request] = []"
proof -
  have t: "truthy (request_q (empty_request \<lparr> request_q := Str ''avg:system.cpu.user{*}'' \<rparr>))"
    by simp
  have e: "\<not> truthy (request_q empty_request) \<and> \<not> nonempty_queries empty_request
      \<and> \<not> nonempty_formulas empty_request"
    by (simp add: empty_request_def nonempty_queries_def nonempty_formulas_def)
  have n: "generateLegacyRequests [] = [] \<and> generateModernRequests [] = []"
    by (simp add: generateLegacyRequests_def generateModernRequests_def)
  from t e n
    request_block_iff_content
      [of "[]" "empty_request \<lparr> request_q := Str ''avg:system.cpu.user{*}'' \<rparr>" "[]"]
    request_block_iff_content
      [of "[]" empty_request "[empty_request \<lparr> request_q := Str ''avg:system.cpu.user{*}'' \<rparr>]"]
    request_block_iff_content
      [of "[]" "empty_request" "[]"]
  show ?thesis by (simp add: request_blocks_nonempty)
qed







section \<open>Properties of the layout block\<close>

lemma js_or_text: "to_string (js_or v (Num d)) = dimension_text v d"
  by (simp add: js_or_def dimension_text_def)

text \<open>
  C6, as stated, fails: the dimensions are written as \<^verbatim>\<open>widget.layout.height || 8\<close>,
  so a height or a width given as 0 is falsy and is replaced by the default 8 or 12, not
  emitted with its given value.
\<close>

theorem widget_layout_zero_counterexample:
  "generateModernWidgetHCL
     \<lparr> widget_id = Undefined,
       widget_layout = Some \<lparr> layout_height = Num ''0'', layout_width = Num ''0'',
                               layout_x = Num ''0'', layout_y = Num ''0'' \<rparr> \<rparr>
     (Inr unknown_widget_comments)
   = Inr ([newline] @ ln ''  widget {''
          @ ln ''    widget_layout {''
          @ ln ''      height          = 8''
          @ ln ''      is_column_break = false''
          @ ln ''      width           = 12''
          @ ln ''      x               = 0''
          @ ln ''      y               = 0''
          @ ln ''    }'' @ [newline]
          @ unknown_widget_comments
          @ ln ''  }'')"
  by (simp add: generateModernWidgetHCL_def js_or_def ln_def)

text \<open>
  C6, amended: for every widget whose layout object is present, the widget emitter (and
  the emitter for nested widgets) emits a \<open>widget_layout\<close> block with the fields in the
  fixed order height, is_column_break (constant false), width, x, y. A dimension that is
  given and truthy (any number but 0) is emitted with its given value; a dimension that
  is missing or falsy is emitted as its default: 8 for height, 12 for width, 0 for x
  and y.
\<close>

theorem widget_layout_block:
  assumes "widget_layout widget = Some layout"
  shows "generateModernWidgetHCL widget (Inr text) =
     Inr ([newline] @ ln ''  widget {''
          @ (if truthy (widget_id widget)
             then ln (''    id = '' @ in_quotes (widget_id widget)) else [])
          @ spec_layout_block ''    ''
              (dimension_text (layout_height layout) ''8'')
              (dimension_text (layout_width layout) ''12'')
              (dimension_text (layout_x layout) ''0'')
              (dimension_text (layout_y layout) ''0'')
          @ text @ ln ''  }'')
   \<and> generateNestedWidget widget (Inr text) =
     Inr ([newline] @ ln ''      widget {''
          @ (if truthy (widget_id widget)
             then ln (''        id = '' @ in_quotes (widget_id widget)) else [])
          @ spec_layout_block ''        ''
              (dimension_text (layout_height layout) ''8'')
              (dimension_text (layout_width layout) ''12'')
              (dimension_text (layout_x layout) ''0'')
              (dimension_text (layout_y layout) ''0'')
          @ text @ ln ''      }'')
   \<and> dimension_text Undefined d = d
   \<and> (truthy v \<longrightarrow> dimension_text v d = to_string v)
   \<and> dimension_text (Num ''0'') d = d"
  using assms
  by (simp add: generateModernWidgetHCL_def generateNestedWidget_def spec_layout_block_def
      js_or_text ln_def dimension_text_def)

theorem widget_layout_block_witness:
  "widget_layout \<lparr> widget_id = Str ''w1'',
       widget_layout = Some \<lparr> layout_height = Num ''4'', layout_width = Undefined,
                               layout_x = Num ''6'', layout_y = Undefined \<rparr> \<rparr>
     = Some \<lparr> layout_height = Num ''4'', layout_width = Undefined,
              layout_x = Num ''6'', layout_y = Undefined \<rparr>
   \<and> truthy (Num ''4'')
   \<and> generateModernWidgetHCL
       \<lparr> widget_id = Str ''w1'',
         widget_layout = Some \<lparr> layout_height = Num ''4'', layout_width = Undefined,
                               layout_x = Num ''6'', layout_y = Undefined \<rparr> \<rparr>
       (Inr unknown_widget_comments)
     = Inr ([newline] @ ln ''  widget {''
            @ ln (''    id = '' @ [dquote] @ ''w1'' @ [dquote])
            @ ln ''    widget_layout {''
            @ ln ''      height          = 4''
            @ ln ''      is_column_break = false''
            @ ln ''      width           = 12''
            @ ln ''      x               = 6''
            @ ln ''      y               = 0''
            @ ln ''    }'' @ [newline]
            @ unknown_widget_comments
            @ ln ''  }'')"
  using widget_layout_block
    [of "\<lparr> widget_id = Str ''w1'',
         widget_layout = Some \<lparr> layout_height = Num ''4'', layout_width = Undefined,
                               layout_x = Num ''6'', layout_y = Undefined \<rparr> \<rparr>"
        "\<lparr> layout_height = Num ''4'', layout_width = Undefined,
                               layout_x = Num ''6'', layout_y = Undefined \<rparr>"
        unknown_widget_comments "''8''" "Num ''4''"]
  by (simp add: spec_layout_block_def dimension_text_def ln_def in_quotes_def quoted_def)

section \<open>Properties of the validator\<close>

lemma foldl_count_delimiter:
  "braceCount (foldl count_delimiter st line) = braceCount st + line_excess line
   \<and> st_issues (foldl count_delimiter st line) = st_issues st"
  by (induction line arbitrary: st) (auto simp: count_delimiter_def line_excess_def)

lemma push_simps:
  "braceCount (push i st) = braceCount st"
  "st_issues (push i st) = st_issues st @ [i]"
  by (simp_all add: push_def)

lemma check_line_braceCount:
  "braceCount (check_line rx lineIndex line st)
     = braceCount st + (if skipped_line line then 0 else line_excess line)"
  by (simp add: check_line_def Let_def push_simps foldl_count_delimiter split: option.splits)

lemma line_issue_titles:
  "issue_title (unclosed_string_issue lineIndex) = ''Unclosed string literal''"
  "issue_title (invalid_identifier_issue lineIndex identifier) = ''Invalid identifier''"
  "issue_title (unquoted_string_issue lineIndex v) = ''Potentially unquoted string''"
  by (simp_all add: unclosed_string_issue_def invalid_identifier_issue_def
      unquoted_string_issue_def)

lemma push_other_title:
  "issue_title i \<noteq> ''Unmatched braces'' \<Longrightarrow>
     filter is_brace_issue (st_issues (push i st)) = filter is_brace_issue (st_issues st)"
  by (simp add: push_def)

lemma check_line_brace_issues:
  "filter is_brace_issue (st_issues (check_line rx lineIndex line st))
     = filter is_brace_issue (st_issues st)"
proof -
  have t: "''Unclosed string literal'' \<noteq> ''Unmatched braces''"
    "''Invalid identifier'' \<noteq> ''Unmatched braces''"
    "''Potentially unquoted string'' \<noteq> ''Unmatched braces''"
    by simp_all
  show ?thesis
    by (simp add: check_line_def Let_def push_other_title line_issue_titles t
        foldl_count_delimiter split: option.splits)
qed

lemma brace_excess_Cons:
  "brace_excess (line # rest) = (if skipped_line line then 0 else line_excess line) + brace_excess rest"
  by (simp add: brace_excess_def scanned_text_def line_excess_def)

lemma scan_lines_braceCount:
  "braceCount (scan_lines rx lineIndex lines st) = braceCount st + brace_excess lines"
proof (induction lines arbitrary: lineIndex st)
  case Nil
  then show ?case by (simp add: brace_excess_def scanned_text_def)
next
  case (Cons line rest)
  then show ?case by (simp add: check_line_braceCount brace_excess_Cons)
qed

lemma scan_lines_brace_issues:
  "filter is_brace_issue (st_issues (scan_lines rx lineIndex lines st))
     = filter is_brace_issue (st_issues st)"
  by (induction lines arbitrary: lineIndex st) (simp_all add: check_line_brace_issues)

lemma validateBasicSyntax_brace_issues:
  "filter is_brace_issue (validateBasicSyntax rx lines issues0) =
     filter is_brace_issue issues0
     @ (if brace_excess lines \<noteq> 0
        then [unmatched_issue ''braces'' (brace_excess lines)] else [])"
  by (simp add: validateBasicSyntax_def Let_def push_simps scan_lines_brace_issues
      scan_lines_braceCount unmatched_issue_def)

lemma show_nat_one: "show_nat (Suc 0) = ''1''"
  by code_simp

lemma rstrip_Cons:
  "rev (dropWhile P (rev (c # cs))) =
     (if P c \<and> (\<forall>x \<in> set cs. P x) then [] else c # rev (dropWhile P (rev cs)))"
  by (simp add: dropWhile_append)

lemma trim_unfold:
  "trim line =
     (case dropWhile is_js_space line of
        [] \<Rightarrow> []
      | c # cs \<Rightarrow> c # rev (dropWhile is_js_space (rev cs)))"
proof (cases "dropWhile is_js_space line")
  case Nil
  show ?thesis unfolding trim_def Nil by simp
next
  case (Cons c cs)
  then have "\<not> is_js_space c" by (metis hd_dropWhile list.distinct(1) list.sel(1))
  then show ?thesis unfolding trim_def Cons by (simp only: rstrip_Cons) simp
qed

lemma rstrip_take_slash:
  "take (Suc 0) (rev (dropWhile is_js_space (rev cs))) = ''/''
     \<longleftrightarrow> take (Suc 0) cs = ''/''"
proof (cases cs)
  case Nil
  then show ?thesis by simp
next
  case (Cons d ds)
  have "\<not> is_js_space (CHR ''/'')" by (simp add: is_js_space_def)
  then show ?thesis unfolding Cons by (simp only: rstrip_Cons) auto
qed

lemma claimed_skipped_eq: "claimed_skipped line = skipped_line line"
proof (cases "dropWhile is_js_space line")
  case Nil
  show ?thesis unfolding claimed_skipped_def skipped_line_def trim_unfold Nil by simp
next
  case (Cons c cs)
  show ?thesis
    unfolding claimed_skipped_def skipped_line_def trim_unfold Cons
    by (simp add: startsWith_def rstrip_take_slash split: list.splits)
qed

lemma code_lines_text_eq: "code_lines_text lines = scanned_text lines"
  by (simp add: code_lines_text_def scanned_text_def claimed_skipped_eq)

lemma match_brace_balance:
  "int (fst (foldl match_brace (a, b) s)) - int (snd (foldl match_brace (a, b) s))
     = int a - int b + line_excess s"
proof (induction s arbitrary: a b)
  case Nil
  then show ?case by (simp add: line_excess_def)
next
  case (Cons c cs)
  have step: "int (fst (match_brace (a, b) c)) - int (snd (match_brace (a, b) c))
      = int a - int b + line_excess [c]"
    by (auto simp: match_brace_def line_excess_def)
  have split: "line_excess (c # cs) = line_excess [c] + line_excess cs"
    by (simp add: line_excess_def)
  obtain a' b' where ab: "match_brace (a, b) c = (a', b')"
    by (cases "match_brace (a, b) c") auto
  with Cons [of a' b'] step split show ?case by simp
qed

lemma brace_excess_scanned: "brace_excess lines = line_excess (scanned_text lines)"
  by (simp add: brace_excess_def line_excess_def)

lemma unmatched_balance:
  "int (unmatched_opening (scanned_text lines)) - int (unmatched_closing (scanned_text lines))
     = brace_excess lines"
  using match_brace_balance [of 0 0 "scanned_text lines"]
  by (simp add: unmatched_opening_def unmatched_closing_def brace_excess_scanned)

text \<open>The finding depends on the net balance only.\<close>

lemma brace_excess_one_finding:
  assumes "brace_excess lines = 1"
  shows "filter (\<lambda>i. issue_title i = ''Unmatched braces'') (validateBasicSyntax rx lines [])
         = [unmatched_braces_error]"
  by (simp add: validateBasicSyntax_brace_issues assms unmatched_issue_def show_nat_one
      unmatched_braces_error_def)

text \<open>
  C8, as stated, fails: the pass keeps one counter, up for an opening and down for a
  closing brace, over the lines that are neither empty nor comments. The text \<open>} {\<close> has
  exactly one unmatched opening brace, and so has the comment line \<open># {\<close>; the counter
  ends at 0 for both and the pass finds nothing.
\<close>

theorem unmatched_brace_counterexample:
  "unmatched_opening ''} {'' = 1
   \<and> validateBasicSyntax quiet_tests (split_lines ''} {'') [] = []
   \<and> unmatched_opening ''# {'' = 1
   \<and> validateBasicSyntax quiet_tests (split_lines ''# {'') [] = []"
proof -
  have a: "unmatched_opening ''} {'' = 1" by code_simp
  have b: "validateBasicSyntax quiet_tests (split_lines ''} {'') [] = []" by code_simp
  have c: "unmatched_opening ''# {'' = 1" by code_simp
  have d: "validateBasicSyntax quiet_tests (split_lines ''# {'') [] = []" by code_simp
  from a b c d show ?thesis by blast
qed

text \<open>
  C8, amended: for every text, given to the pass as its list of lines, whose lines that
  are neither empty nor comments hold exactly one unmatched opening brace and no
  unmatched closing brace (every brace character counts, also inside a string literal),
  the syntax pass gives exactly one finding titled \<open>Unmatched braces\<close>: an error about
  the whole text that reports 1 unmatched opening brace.
\<close>

theorem one_unmatched_opening_brace:
  assumes "unmatched_opening (code_lines_text lines) = 1"
    and "unmatched_closing (code_lines_text lines) = 0"
  shows "filter (\<lambda>i. issue_title i = ''Unmatched braces'')
           (validateBasicSyntax rx lines [])
         = [unmatched_braces_error]"
proof -
  from assms unmatched_balance [of lines]
  have "brace_excess lines = 1" by (simp add: code_lines_text_eq)
  then show ?thesis by (rule brace_excess_one_finding)
qed

theorem one_unmatched_opening_brace_witness:
  "unmatched_opening (code_lines_text (split_lines nested_block_text)) = 1
   \<and> unmatched_closing (code_lines_text (split_lines nested_block_text)) = 0
   \<and> validateBasicSyntax quiet_tests (split_lines nested_block_text) []
       = [unmatched_braces_error]"
proof -
  have h1: "unmatched_opening (code_lines_text (split_lines nested_block_text)) = 1"
    by code_simp
  have h2: "unmatched_closing (code_lines_text (split_lines nested_block_text)) = 0"
    by code_simp
  have t: "map issue_title (validateBasicSyntax quiet_tests (split_lines nested_block_text) [])
      = [''Unmatched braces'']"
    by code_simp
  from one_unmatched_opening_brace [OF h1 h2, of quiet_tests] t
  have "validateBasicSyntax quiet_tests (split_lines nested_block_text) []
       = [unmatched_braces_error]"
    by (cases "validateBasicSyntax quiet_tests (split_lines nested_block_text) []") auto
  with h1 h2 show ?thesis by blast
qed

lemma length_filter_severity:
  "length (filter (\<lambda>i. issue_severity i = s) found) = count_list (map issue_severity found) s"
  by (induction found) auto

lemma severity_partition:
  "count_list sevs Sev_error + count_list sevs Sev_warning + count_list sevs Sev_info
     = length sevs"
proof (induction sevs)
  case Nil
  then show ?case by simp
next
  case (Cons s sevs)
  then show ?case by (cases s) simp_all
qed

text \<open>
  C5: for every validation run over any text, the validity flag is true if and only if
  no finding of the result has severity error, so a result with warnings and infos only
  is valid; and the counts of the summary are the numbers of findings of each severity
  and their total.
\<close>

theorem validation_summary_matches:
  assumes "r = performHCLValidation rx passes text"
  shows "(isValid r \<longleftrightarrow> (\<forall>i \<in> set (result_issues r). issue_severity i \<noteq> Sev_error))
    \<and> summary_errors (result_summary r)
        = count_list (map issue_severity (result_issues r)) Sev_error
    \<and> summary_warnings (result_summary r)
        = count_list (map issue_severity (result_issues r)) Sev_warning
    \<and> summary_infos (result_summary r)
        = count_list (map issue_severity (result_issues r)) Sev_info
    \<and> summary_total (result_summary r) = length (result_issues r)
    \<and> summary_errors (result_summary r) + summary_warnings (result_summary r)
        + summary_infos (result_summary r) = summary_total (result_summary r)
    \<and> (isValid r \<longleftrightarrow> summary_errors (result_summary r) = 0)"
proof -
  define found where "found = result_issues r"
  have r: "isValid r = (length (filter (\<lambda>i. issue_severity i = Sev_error) found) = 0)"
    "summary_errors (result_summary r) = length (filter (\<lambda>i. issue_severity i = Sev_error) found)"
    "summary_warnings (result_summary r) = length (filter (\<lambda>i. issue_severity i = Sev_warning) found)"
    "summary_infos (result_summary r) = length (filter (\<lambda>i. issue_severity i = Sev_info) found)"
    "summary_total (result_summary r) = length found"
    unfolding found_def assms by (simp_all add: performHCLValidation_def Let_def)
  have v: "isValid r \<longleftrightarrow> (\<forall>i \<in> set found. issue_severity i \<noteq> Sev_error)"
    by (simp add: r(1) filter_empty_conv)
  from severity_partition [of "map issue_severity found"]
  have p: "summary_errors (result_summary r) + summary_warnings (result_summary r)
        + summary_infos (result_summary r) = summary_total (result_summary r)"
    by (simp add: r length_filter_severity)
  from v p r show ?thesis
    unfolding found_def [symmetric] by (simp add: length_filter_severity)
qed

theorem validation_summary_matches_witness:
  "\<not> isValid (performHCLValidation quiet_tests quiet_passes ''resource x {'')
   \<and> summary_errors (result_summary
         (performHCLValidation quiet_tests quiet_passes ''resource x {'')) = 1
   \<and> isValid (performHCLValidation quiet_tests hint_passes ''a = 1'')
   \<and> summary_infos (result_summary
         (performHCLValidation quiet_tests hint_passes ''a = 1'')) = 1"
proof -
  let ?r1 = "performHCLValidation quiet_tests quiet_passes ''resource x {''"
  let ?r2 = "performHCLValidation quiet_tests hint_passes ''a = 1''"
  have e1: "map issue_severity (result_issues ?r1) = [Sev_error]"
    by code_simp
  have e2: "map issue_severity (result_issues ?r2) = [Sev_info]"
    by code_simp
  note t1 = validation_summary_matches [OF refl, of quiet_tests quiet_passes "''resource x {''"]
  note t2 = validation_summary_matches [OF refl, of quiet_tests hint_passes "''a = 1''"]
  from t1 have "summary_errors (result_summary ?r1)
      = count_list (map issue_severity (result_issues ?r1)) Sev_error"
    by blast
  with e1 have a1: "summary_errors (result_summary ?r1) = 1"
    by simp
  from t1 have "isValid ?r1 \<longleftrightarrow> summary_errors (result_summary ?r1) = 0"
    by blast
  with a1 have a2: "\<not> isValid ?r1"
    by simp
  from t2 have "summary_infos (result_summary ?r2)
      = count_list (map issue_severity (result_issues ?r2)) Sev_info"
    by blast
  with e2 have b1: "summary_infos (result_summary ?r2) = 1"
    by simp
  from t2 have "summary_errors (result_summary ?r2)
      = count_list (map issue_severity (result_issues ?r2)) Sev_error"
    by blast
  with e2 have z: "summary_errors (result_summary ?r2) = 0"
    by simp
  from t2 have "isValid ?r2 \<longleftrightarrow> summary_errors (result_summary ?r2) = 0"
    by blast
  with z have b2: "isValid ?r2"
    by simp
  from a1 a2 b1 b2 show ?thesis by blast
qed

end
